theory Spec2Isabelle
  imports Complex_Main "HOL-Library.List_Lexorder" "HOL-Library.Char_ord"
begin

section \<open>Column profiling of analyze\_excel.py\<close>

text \<open>
  The development embeds the two functions of \<^verbatim>\<open>src/analyze_excel.py\<close> that carry the
  decision logic, \<^verbatim>\<open>generate_fake_data\<close> and \<^verbatim>\<open>analyze_column\<close>, together with the part
  of Python, pandas, numpy and Faker they call.

  Scope of the value model. A cell is a missing value, a Python \<^verbatim>\<open>int\<close>, a timestamp, or
  a \<^verbatim>\<open>str\<close>. The missing value \<open>PyNone\<close> stands for what an empty cell of a sheet is read
  as: \<^verbatim>\<open>NaN\<close>, or \<^verbatim>\<open>NaT\<close> in a datetime column. A \<^verbatim>\<open>str\<close> is a list of code points below
  256 (one \<open>char\<close> per code point, Latin-1), which covers the Swedish vocabulary of the
  source. Non-integral floats and booleans are outside the model. The pandas modelled is
  pandas 2, where a timestamp column has nanosecond resolution.
\<close>

subsection \<open>Python values\<close>

datatype pyval =
    PyNone
  | PyInt int
  | PyDatetime nat nat nat nat nat nat
  | PyStr string

datatype error = TypeError

text \<open>\<^verbatim>\<open>pd.isna(val)\<close>\<close>

fun isna :: "pyval \<Rightarrow> bool" where
  "isna PyNone = True"
| "isna _ = False"

text \<open>\<^verbatim>\<open>isinstance(val, (int, float, np.number))\<close>\<close>

fun is_number :: "pyval \<Rightarrow> bool" where
  "is_number (PyInt _) = True"
| "is_number _ = False"

text \<open>\<^verbatim>\<open>isinstance(val, (datetime, pd.Timestamp))\<close>\<close>

fun is_datetime :: "pyval \<Rightarrow> bool" where
  "is_datetime (PyDatetime _ _ _ _ _ _) = True"
| "is_datetime _ = False"

fun is_str :: "pyval \<Rightarrow> bool" where
  "is_str (PyStr _) = True"
| "is_str _ = False"

subsection \<open>Python strings\<close>

text \<open>
  \<^verbatim>\<open>str.isspace\<close> on one code point below 256: U+0009..U+000D, U+001C..U+0020, U+0085
  and U+00A0.
\<close>

definition is_space :: "char \<Rightarrow> bool" where
  "is_space c =
     (let n = (of_char c :: nat)
      in (9 \<le> n \<and> n \<le> 13) \<or> (28 \<le> n \<and> n \<le> 32) \<or> n = 133 \<or> n = 160)"

text \<open>\<^verbatim>\<open>s.strip()\<close>: whitespace removed at both ends.\<close>

definition strip :: "string \<Rightarrow> string" where
  "strip s = rev (dropWhile is_space (rev (dropWhile is_space s)))"

text \<open>
  \<^verbatim>\<open>s.lower()\<close>: the upper-case letters below 256 are A..Z, U+00C0..U+00D6 and
  U+00D8..U+00DE; each lower-case partner is 32 code points higher.
\<close>

definition lower_char :: "char \<Rightarrow> char" where
  "lower_char c =
     (let n = (of_char c :: nat)
      in if (65 \<le> n \<and> n \<le> 90) \<or> (192 \<le> n \<and> n \<le> 222 \<and> n \<noteq> 215)
         then char_of (n + 32) else c)"

definition lower :: "string \<Rightarrow> string" where
  "lower s = map lower_char s"

fun starts_with :: "string \<Rightarrow> string \<Rightarrow> bool" where
  "starts_with [] s = True"
| "starts_with (p # ps) [] = False"
| "starts_with (p # ps) (c # cs) = (p = c \<and> starts_with ps cs)"

text \<open>\<^verbatim>\<open>p in s\<close> on strings: \<open>p\<close> occurs in \<open>s\<close> as a contiguous substring.\<close>

fun contains :: "string \<Rightarrow> string \<Rightarrow> bool" where
  "contains p [] = (p = [])"
| "contains p (c # cs) = (starts_with p (c # cs) \<or> contains p cs)"

text \<open>\<^verbatim>\<open>s.replace("\n", ", ")\<close>\<close>

definition replace_newline :: "string \<Rightarrow> string" where
  "replace_newline s = concat (map (\<lambda>c. if c = CHR 0x0A then '', '' else [c]) s)"

text \<open>\<^verbatim>\<open>str(n)\<close> for an \<^verbatim>\<open>int\<close>: decimal digits, with a minus sign below zero.\<close>

definition digit_char :: "nat \<Rightarrow> char" where
  "digit_char d = ''0123456789'' ! d"

fun str_nat :: "nat \<Rightarrow> string" where
  "str_nat n =
     (if n < 10 then [digit_char n] else str_nat (n div 10) @ [digit_char (n mod 10)])"

declare str_nat.simps [simp del]

definition str_int :: "int \<Rightarrow> string" where
  "str_int i = (if i < 0 then CHR ''-'' # str_nat (nat (- i)) else str_nat (nat i))"

text \<open>Zero padding to a width, as in the fields of a printed timestamp.\<close>

definition zero_pad :: "nat \<Rightarrow> nat \<Rightarrow> string" where
  "zero_pad w n = replicate (w - length (str_nat n)) CHR ''0'' @ str_nat n"

text \<open>
  \<^verbatim>\<open>str(val)\<close>. A timestamp prints as \<^verbatim>\<open>YYYY-MM-DD HH:MM:SS\<close>, a missing float as
  \<^verbatim>\<open>nan\<close>.
\<close>

fun py_str :: "pyval \<Rightarrow> string" where
  "py_str PyNone = ''nan''"
| "py_str (PyInt i) = str_int i"
| "py_str (PyDatetime y mo d h mi s) =
     zero_pad 4 y @ ''-'' @ zero_pad 2 mo @ ''-'' @ zero_pad 2 d @ '' '' @
     zero_pad 2 h @ '':'' @ zero_pad 2 mi @ '':'' @ zero_pad 2 s"
| "py_str (PyStr s) = s"

subsection \<open>pandas Series\<close>

text \<open>
  A Series is its dtype and its values in row order. \<open>Object\<close> is the dtype of a
  column that holds text, a mix of kinds, or values that no native dtype can store;
  \<open>Float64\<close> is the dtype of a numeric column with missing cells.
\<close>

datatype dtype = Int64 | UInt64 | Float64 | Datetime64 | Object

record series =
  dtype :: dtype
  vals :: "pyval list"

text \<open>
  What the native dtypes can store: a signed 64-bit integer lies in
  \<open>[-2\<^sup>6\<^sup>3, 2\<^sup>6\<^sup>3)\<close>, an unsigned one in \<open>[0, 2\<^sup>6\<^sup>4)\<close>, and a timestamp of nanosecond
  resolution between 1677-09-21 00:12:44 and 2262-04-11 23:47:16 (the fields of a date
  compare in order as the dates do).
\<close>

fun fits_int64 :: "pyval \<Rightarrow> bool" where
  "fits_int64 (PyInt i) = (- 9223372036854775808 \<le> i \<and> i < 9223372036854775808)"
| "fits_int64 _ = False"

fun fits_uint64 :: "pyval \<Rightarrow> bool" where
  "fits_uint64 (PyInt i) = (0 \<le> i \<and> i < 18446744073709551616)"
| "fits_uint64 _ = False"

fun fits_timestamp :: "pyval \<Rightarrow> bool" where
  "fits_timestamp (PyDatetime y mo d h mi s) =
     ([1677, 9, 21, 0, 12, 44] \<le> [y, mo, d, h, mi, s] \<and>
      [y, mo, d, h, mi, s] \<le> [2262, 4, 11, 23, 47, 16])"
| "fits_timestamp _ = False"

text \<open>The values a Series of each dtype can hold.\<close>

definition wf_series :: "series \<Rightarrow> bool" where
  "wf_series s =
     (case dtype s of
        Int64 \<Rightarrow> list_all fits_int64 (vals s)
      | UInt64 \<Rightarrow> list_all fits_uint64 (vals s)
      | Float64 \<Rightarrow> list_all (\<lambda>v. is_number v \<or> isna v) (vals s)
      | Datetime64 \<Rightarrow> list_all (\<lambda>v. fits_timestamp v \<or> isna v) (vals s)
      | Object \<Rightarrow> True)"

text \<open>
  The dtype pandas infers for a list of cells when it builds a column (and when
  \<^verbatim>\<open>infer_objects\<close> converts an object column softly). Numbers that all fit a signed
  64-bit integer give an \<^verbatim>\<open>int64\<close> column, numbers that all fit an unsigned one a
  \<^verbatim>\<open>uint64\<close> column; such numbers with missing cells (or missing cells only) give a float
  column; timestamps that fit the nanosecond range, with or without missing cells, give
  a datetime column. Anything else stays \<^verbatim>\<open>object\<close>: text, which is never parsed, a mix
  of kinds, and also a number or a date outside these ranges.
\<close>

definition infer_dtype :: "pyval list \<Rightarrow> dtype" where
  "infer_dtype xs =
     (if xs = [] then Object
      else if list_all fits_int64 xs then Int64
      else if list_all fits_uint64 xs then UInt64
      else if list_all (\<lambda>v. fits_int64 v \<or> isna v) xs \<or>
              list_all (\<lambda>v. fits_uint64 v \<or> isna v) xs then Float64
      else if list_all (\<lambda>v. fits_timestamp v \<or> isna v) xs then Datetime64
      else Object)"

text \<open>\<^verbatim>\<open>pd.Series(xs)\<close>\<close>

definition Series :: "pyval list \<Rightarrow> series" where
  "Series xs = \<lparr>dtype = infer_dtype xs, vals = xs\<rparr>"

text \<open>\<^verbatim>\<open>series.dropna()\<close>: the missing values removed, the dtype kept.\<close>

definition dropna :: "series \<Rightarrow> series" where
  "dropna s = s\<lparr>vals := filter (\<lambda>v. \<not> isna v) (vals s)\<rparr>"

text \<open>\<^verbatim>\<open>series.unique()\<close>: the distinct values in order of first appearance.\<close>

fun unique_from :: "pyval list \<Rightarrow> pyval list \<Rightarrow> pyval list" where
  "unique_from seen [] = seen"
| "unique_from seen (x # xs) =
     (if x \<in> set seen then unique_from seen xs else unique_from (seen @ [x]) xs)"

definition unique :: "series \<Rightarrow> pyval list" where
  "unique s = unique_from [] (vals s)"

text \<open>
  \<^verbatim>\<open>series.astype(str)\<close>: every value replaced by its text, in an object column. (A
  number of a float column prints with a trailing \<^verbatim>\<open>.0\<close>, which \<open>py_str\<close> does not
  render; the program never reads the digits of this text, only that it is text.)
\<close>

definition astype_str :: "series \<Rightarrow> series" where
  "astype_str s = \<lparr>dtype = Object, vals = map (\<lambda>v. PyStr (py_str v)) (vals s)\<rparr>"

text \<open>\<^verbatim>\<open>series.infer_objects()\<close>: only an object column is looked at again.\<close>

definition infer_objects :: "series \<Rightarrow> series" where
  "infer_objects s = (if dtype s = Object then s\<lparr>dtype := infer_dtype (vals s)\<rparr> else s)"

text \<open>The predicates of \<^verbatim>\<open>pd.api.types\<close> on a dtype.\<close>

fun is_string_dtype :: "dtype \<Rightarrow> bool" where
  "is_string_dtype Object = True"
| "is_string_dtype _ = False"

fun is_numeric_dtype :: "dtype \<Rightarrow> bool" where
  "is_numeric_dtype Int64 = True"
| "is_numeric_dtype UInt64 = True"
| "is_numeric_dtype Float64 = True"
| "is_numeric_dtype _ = False"

fun is_datetime64_any_dtype :: "dtype \<Rightarrow> bool" where
  "is_datetime64_any_dtype Datetime64 = True"
| "is_datetime64_any_dtype _ = False"

text \<open>
  \<^verbatim>\<open>series.min()\<close> and \<^verbatim>\<open>series.max()\<close>: missing values are skipped; nothing left gives
  \<^verbatim>\<open>NaN\<close>; values of one kind are compared (numbers by size, text by code points,
  timestamps by their fields in order); values of different kinds cannot be compared.
\<close>

fun the_int :: "pyval \<Rightarrow> int" where
  "the_int (PyInt i) = i"
| "the_int _ = 0"

fun the_str :: "pyval \<Rightarrow> string" where
  "the_str (PyStr s) = s"
| "the_str _ = []"

fun the_fields :: "pyval \<Rightarrow> nat list" where
  "the_fields (PyDatetime y mo d h mi s) = [y, mo, d, h, mi, s]"
| "the_fields _ = []"

fun of_fields :: "nat list \<Rightarrow> pyval" where
  "of_fields [y, mo, d, h, mi, s] = PyDatetime y mo d h mi s"
| "of_fields _ = PyNone"

definition extreme :: "(int \<Rightarrow> int \<Rightarrow> int) \<Rightarrow> (string \<Rightarrow> string \<Rightarrow> string) \<Rightarrow>
    (nat list \<Rightarrow> nat list \<Rightarrow> nat list) \<Rightarrow> series \<Rightarrow> error + pyval" where
  "extreme pick_int pick_str pick_fields s =
     (case vals (dropna s) of
        [] \<Rightarrow> Inr PyNone
      | x # xs \<Rightarrow>
          if list_all is_number (x # xs)
            then Inr (PyInt (fold pick_int (map the_int xs) (the_int x)))
          else if list_all is_str (x # xs)
            then Inr (PyStr (fold pick_str (map the_str xs) (the_str x)))
          else if list_all is_datetime (x # xs)
            then Inr (of_fields (fold pick_fields (map the_fields xs) (the_fields x)))
          else Inl TypeError)"

definition series_min :: "series \<Rightarrow> error + pyval" where
  "series_min s = extreme min min min s"

definition series_max :: "series \<Rightarrow> error + pyval" where
  "series_max s = extreme max max max s"

subsection \<open>Random generators\<close>

text \<open>
  The program draws from the Faker instance \<^verbatim>\<open>fake = Faker("sv_SE")\<close> and from
  \<^verbatim>\<open>np.random\<close>. Both are taken as parameters: each generator is a function of the
  generator state \<open>'g\<close> and returns its value with the next state.
  \<open>uniform_text lo hi\<close> stands for \<^verbatim>\<open>str(round(np.random.uniform(lo, hi), 2))\<close>, which
  fails on bounds that are not numbers.
\<close>

record 'g generators =
  fake_name :: "'g \<Rightarrow> string \<times> 'g"
  fake_company :: "'g \<Rightarrow> string \<times> 'g"
  fake_email :: "'g \<Rightarrow> string \<times> 'g"
  fake_phone_number :: "'g \<Rightarrow> string \<times> 'g"
  fake_address :: "'g \<Rightarrow> string \<times> 'g"
  fake_ssn :: "'g \<Rightarrow> string \<times> 'g"
  fake_random_number :: "nat \<Rightarrow> bool \<Rightarrow> 'g \<Rightarrow> int \<times> 'g"
  fake_date :: "'g \<Rightarrow> string \<times> 'g"
  fake_word :: "'g \<Rightarrow> string \<times> 'g"
  uniform_text :: "pyval \<Rightarrow> pyval \<Rightarrow> 'g \<Rightarrow> error + (string \<times> 'g)"

subsection \<open>Configuration\<close>

definition SAMPLE_SIZE :: nat where
  "SAMPLE_SIZE = 50"

definition CATEGORICAL_THRESHOLD :: nat where
  "CATEGORICAL_THRESHOLD = 15"

definition EXAMPLE_COUNT :: nat where
  "EXAMPLE_COUNT = 5"

subsection \<open>generate\_fake\_data\<close>

text \<open>The Swedish word for company, \<^verbatim>\<open>f\<close> U+00F6 \<^verbatim>\<open>retag\<close>.\<close>

definition foretag :: string where
  "foretag = CHR ''f'' # CHR 0xF6 # ''retag''"

definition generate_fake_data ::
    "'g generators \<Rightarrow> series \<Rightarrow> string \<Rightarrow> 'g \<Rightarrow> error + (string \<times> 'g)" where
  "generate_fake_data fake series0 col_name g =
     (let series = astype_str (dropna series0);
          col_name_lower = lower col_name
      in
        if contains ''namn'' col_name_lower \<or> contains ''kund'' col_name_lower
          then Inr (fake_name fake g)
        else if contains foretag col_name_lower
          then Inr (fake_company fake g)
        else if contains ''epost'' col_name_lower \<or> contains ''email'' col_name_lower
          then Inr (fake_email fake g)
        else if contains ''telefon'' col_name_lower \<or> contains ''mobil'' col_name_lower
          then Inr (fake_phone_number fake g)
        else if contains ''adress'' col_name_lower
          then (case fake_address fake g of (a, g') \<Rightarrow> Inr (replace_newline a, g'))
        else if contains ''personnummer'' col_name_lower
          then Inr (fake_ssn fake g)
        else if contains ''nummer'' col_name_lower \<or> contains ''id'' col_name_lower
          then (case fake_random_number fake 6 True g of (n, g') \<Rightarrow> Inr (str_int n, g'))
        else if contains ''datum'' col_name_lower
          then Inr (fake_date fake g)
        else if is_numeric_dtype (dtype (infer_objects series))
          then (case series_min series of
                  Inl e \<Rightarrow> Inl e
                | Inr lo \<Rightarrow>
                    (case series_max series of
                       Inl e \<Rightarrow> Inl e
                     | Inr hi \<Rightarrow> uniform_text fake lo hi g))
        else if is_datetime64_any_dtype (dtype (infer_objects series))
          then Inr (fake_date fake g)
        else Inr (fake_word fake g))"

subsection \<open>analyze\_column\<close>

text \<open>
  A \<^verbatim>\<open>Counter\<close> keeps its keys in order of first insertion: an association list.
  \<open>counter_incr\<close> is \<^verbatim>\<open>counts[k] += 1\<close>, \<open>counter_get\<close> is \<^verbatim>\<open>counts.get(k, d)\<close>.
\<close>

type_synonym counter = "(string \<times> nat) list"

fun counter_incr :: "string \<Rightarrow> counter \<Rightarrow> counter" where
  "counter_incr k [] = [(k, 1)]"
| "counter_incr k ((k', c) # rest) =
     (if k = k' then (k', c + 1) # rest else (k', c) # counter_incr k rest)"

fun counter_get :: "counter \<Rightarrow> string \<Rightarrow> nat \<Rightarrow> nat" where
  "counter_get [] k d = d"
| "counter_get ((k', c) # rest) k d = (if k = k' then c else counter_get rest k d)"

text \<open>The key one row adds to: the \<^verbatim>\<open>if\<close>/\<^verbatim>\<open>elif\<close> chain of the counting loop.\<close>

definition kind_of :: "pyval \<Rightarrow> string" where
  "kind_of val =
     (if isna val \<or> strip (py_str val) = [] then ''Tom''
      else if is_number val then ''Tal''
      else if is_datetime val then ''Datum''
      else ''Text'')"

fun count_kinds :: "pyval list \<Rightarrow> counter \<Rightarrow> counter" where
  "count_kinds [] type_counts = type_counts"
| "count_kinds (val # rest) type_counts =
     count_kinds rest (counter_incr (kind_of val) type_counts)"

definition type_counts :: "series \<Rightarrow> counter" where
  "type_counts s = count_kinds (vals s) []"

text \<open>
  The first component of the result is the text \<^verbatim>\<open>"Tom kolumn"\<close> for a column without
  rows; otherwise it is built from the pairs of a kind and its share \<^verbatim>\<open>c/total_rows\<close>
  of the rows, in the counter's order. The model keeps the pairs with the exact share;
  printing a share as a whole percentage is not modelled.
\<close>

datatype summary = Text string | Shares "(string \<times> rat) list"

definition type_summary :: "series \<Rightarrow> summary" where
  "type_summary s =
     Shares (map (\<lambda>(t, c). (t, of_nat c / of_nat (length (vals s)))) (type_counts s))"

definition unique_values :: "series \<Rightarrow> pyval list" where
  "unique_values s = unique (dropna s)"

definition is_categorical :: "series \<Rightarrow> bool" where
  "is_categorical s =
     (length (unique_values s) \<le> CATEGORICAL_THRESHOLD \<and>
      length (unique_values s) > 0 \<and>
      is_string_dtype (dtype (dropna s)))"

text \<open>
  \<^verbatim>\<open>int(type_counts.get("Tom", 0) / total_rows * EXAMPLE_COUNT)\<close>. The quotient of two
  row counts times 5 is either a whole number, which the float product reaches exactly,
  or at least \<open>1 / total_rows\<close> away from one, so truncating the float product is the
  floor of the exact product.
\<close>

definition num_empty_to_add :: "series \<Rightarrow> nat" where
  "num_empty_to_add s =
     nat \<lfloor>(of_nat (counter_get (type_counts s) ''Tom'' 0) / of_nat (length (vals s)) *
          of_nat EXAMPLE_COUNT :: rat)\<rfloor>"

text \<open>The strings of the report, with U+00E4 written out.\<close>

definition empty_marker :: pyval where
  "empty_marker = PyStr ''(tom)''"

definition note_categorical :: "nat \<Rightarrow> string" where
  "note_categorical n =
     ''Kategorisk ('' @ str_nat n @ '' unika v'' @ [CHR 0xE4] @ ''rden)''"

definition note_variable :: string where
  "note_variable = ''Varierande/K'' @ [CHR 0xE4] @ ''nslig data''"

text \<open>The loop \<^verbatim>\<open>for _ in range(n): examples.append(generate_fake_data(...))\<close>.\<close>

fun fake_loop ::
    "'g generators \<Rightarrow> series \<Rightarrow> string \<Rightarrow> nat \<Rightarrow> pyval list \<Rightarrow> 'g \<Rightarrow>
     error + (pyval list \<times> 'g)" where
  "fake_loop fake s col_name 0 examples g = Inr (examples, g)"
| "fake_loop fake s col_name (Suc n) examples g =
     (case generate_fake_data fake s col_name g of
        Inl e \<Rightarrow> Inl e
      | Inr (x, g') \<Rightarrow> fake_loop fake s col_name n (examples @ [PyStr x]) g')"

text \<open>
  The result is the triple \<^verbatim>\<open>(type_summary, examples, analysis_note)\<close>, with the state
  of the generators after the call.
\<close>

definition analyze_column ::
    "'g generators \<Rightarrow> series \<Rightarrow> string \<Rightarrow> 'g \<Rightarrow>
     error + ((summary \<times> pyval list \<times> string) \<times> 'g)" where
  "analyze_column fake s col_name g =
     (let total_rows = length (vals s) in
      if total_rows = 0 then Inr ((Text ''Tom kolumn'', [], ''Ingen data''), g)
      else
        let non_empty_series = dropna s in
        (case (if is_categorical s
               then Inr ((note_categorical (length (unique_values s)),
                          take EXAMPLE_COUNT (unique_values s)), g)
               else (case fake_loop fake non_empty_series col_name EXAMPLE_COUNT [] g of
                       Inl e \<Rightarrow> Inl e
                     | Inr (examples, g') \<Rightarrow> Inr ((note_variable, examples), g')))
         of
           Inl e \<Rightarrow> Inl e
         | Inr ((analysis_note, examples), g') \<Rightarrow>
             Inr ((type_summary s,
                   drop (num_empty_to_add s) examples @
                     replicate (num_empty_to_add s) empty_marker,
                   analysis_note), g')))"

text \<open>The call of \<^verbatim>\<open>main\<close>: \<^verbatim>\<open>analyze_column(df[col].head(SAMPLE_SIZE), col)\<close>.\<close>

definition head :: "nat \<Rightarrow> series \<Rightarrow> series" where
  "head n s = s\<lparr>vals := take n (vals s)\<rparr>"

section \<open>Notions used to state the properties\<close>

text \<open>
  The distinct values of a list in order of first occurrence, said directly: the head
  stays, and its later copies are deleted from what the tail gives.
\<close>

fun first_occurrences :: "'a list \<Rightarrow> 'a list" where
  "first_occurrences [] = []"
| "first_occurrences (x # xs) = x # filter (\<lambda>y. y \<noteq> x) (first_occurrences xs)"

text \<open>
  A value of kind Empty in the specification's sense: missing, or blank once converted
  to text and trimmed. A blank value is one that is Empty without being missing.
\<close>

definition is_empty_value :: "pyval \<Rightarrow> bool" where
  "is_empty_value v = (isna v \<or> strip (py_str v) = [])"

definition is_blank :: "pyval \<Rightarrow> bool" where
  "is_blank v = (\<not> isna v \<and> strip (py_str v) = [])"

text \<open>
  The specification's distinct non-empty values, and its test for a categorical column:
  between 1 and \<open>CATEGORICAL_THRESHOLD\<close> of them, each of Textual kind.
\<close>

definition distinct_non_empty :: "series \<Rightarrow> pyval list" where
  "distinct_non_empty s = first_occurrences (filter (\<lambda>v. \<not> is_empty_value v) (vals s))"

definition categorical_spec :: "series \<Rightarrow> bool" where
  "categorical_spec s =
     (0 < length (distinct_non_empty s) \<and>
      length (distinct_non_empty s) \<le> CATEGORICAL_THRESHOLD \<and>
      list_all (\<lambda>v. kind_of v = ''Text'') (distinct_non_empty s))"

text \<open>
  The observed Empty proportion of a sample, and the number of marker slots the
  specification derives from it: the floor of the proportion times \<open>EXAMPLE_COUNT\<close>.
\<close>

definition empty_fraction :: "series \<Rightarrow> rat" where
  "empty_fraction s =
     of_nat (length (filter is_empty_value (vals s))) / of_nat (length (vals s))"

definition marker_slots :: "series \<Rightarrow> nat" where
  "marker_slots s = nat \<lfloor>empty_fraction s * of_nat EXAMPLE_COUNT\<rfloor>"

text \<open>The first \<open>n\<close> values a generator gives from a state, and the state after them.\<close>

fun draws :: "('g \<Rightarrow> string \<times> 'g) \<Rightarrow> nat \<Rightarrow> 'g \<Rightarrow> string list \<times> 'g" where
  "draws gen 0 g = ([], g)"
| "draws gen (Suc n) g =
     (case gen g of (x, g') \<Rightarrow> (case draws gen n g' of (xs, g'') \<Rightarrow> (x # xs, g'')))"

text \<open>
  A column name matches a name rule when its lower-case form holds one of the twelve
  tokens that \<open>generate_fake_data\<close> looks for.
\<close>

definition matches_name_rule :: "string \<Rightarrow> bool" where
  "matches_name_rule col_name =
     (let n = lower col_name
      in contains ''namn'' n \<or> contains ''kund'' n \<or> contains foretag n \<or>
         contains ''epost'' n \<or> contains ''email'' n \<or> contains ''telefon'' n \<or>
         contains ''mobil'' n \<or> contains ''adress'' n \<or> contains ''personnummer'' n \<or>
         contains ''nummer'' n \<or> contains ''id'' n \<or> contains ''datum'' n)"

text \<open>
  The generator that \<open>generate_fake_data\<close> draws from for a column name: the chain of
  name rules, with the generic word as the last resort.
\<close>

definition chosen_generator :: "'g generators \<Rightarrow> string \<Rightarrow> 'g \<Rightarrow> string \<times> 'g" where
  "chosen_generator fake col_name =
     (let n = lower col_name
      in
        if contains ''namn'' n \<or> contains ''kund'' n then fake_name fake
        else if contains foretag n then fake_company fake
        else if contains ''epost'' n \<or> contains ''email'' n then fake_email fake
        else if contains ''telefon'' n \<or> contains ''mobil'' n then fake_phone_number fake
        else if contains ''adress'' n
          then (\<lambda>g. case fake_address fake g of (a, g') \<Rightarrow> (replace_newline a, g'))
        else if contains ''personnummer'' n then fake_ssn fake
        else if contains ''nummer'' n \<or> contains ''id'' n
          then (\<lambda>g. case fake_random_number fake 6 True g of (n, g') \<Rightarrow> (str_int n, g'))
        else if contains ''datum'' n then fake_date fake
        else fake_word fake)"

text \<open>
  A deterministic instance of the generators, to run the model on concrete columns: the
  state is a counter, and each value is a letter for its generator followed by the
  counter.
\<close>

definition demo_generators :: "nat generators" where
  "demo_generators =
     \<lparr>fake_name = (\<lambda>g. (''N'' @ str_nat g, Suc g)),
      fake_company = (\<lambda>g. (''C'' @ str_nat g, Suc g)),
      fake_email = (\<lambda>g. (''E'' @ str_nat g, Suc g)),
      fake_phone_number = (\<lambda>g. (''P'' @ str_nat g, Suc g)),
      fake_address = (\<lambda>g. (''A'' @ str_nat g, Suc g)),
      fake_ssn = (\<lambda>g. (''S'' @ str_nat g, Suc g)),
      fake_random_number = (\<lambda>d f g. (int g, Suc g)),
      fake_date = (\<lambda>g. (''D'' @ str_nat g, Suc g)),
      fake_word = (\<lambda>g. (''W'' @ str_nat g, Suc g)),
      uniform_text = (\<lambda>lo hi g. Inr (''U'' @ str_nat g, Suc g))\<rparr>"

section \<open>Python strings and values\<close>

lemma strip_Nil_iff: "strip s = [] \<longleftrightarrow> list_all is_space s"
proof
  assume "strip s = []"
  then have "\<forall>c\<in>set (dropWhile is_space s). is_space c"
    by (simp add: strip_def)
  then have "dropWhile is_space s = []"
    by (metis hd_dropWhile list.set_sel(1))
  then show "list_all is_space s"
    by (simp add: list_all_iff)
next
  assume "list_all is_space s"
  then show "strip s = []"
    by (auto simp: strip_def list_all_iff dest: set_dropWhileD)
qed

lemma digit_not_space: "d < 10 \<Longrightarrow> \<not> is_space (digit_char d)"
proof -
  assume "d < 10"
  then consider "d = 0" | "d = 1" | "d = 2" | "d = 3" | "d = 4" | "d = 5" | "d = 6"
    | "d = 7" | "d = 8" | "d = 9" by atomize_elim arith
  then show ?thesis
    by cases (simp_all add: digit_char_def is_space_def)
qed

lemma str_nat_digits: "str_nat n \<noteq> [] \<and> list_all (\<lambda>c. \<not> is_space c) (str_nat n)"
proof (induction n rule: str_nat.induct)
  case (1 n)
  show ?case
  proof (cases "n < 10")
    case True
    then show ?thesis by (subst (1 2) str_nat.simps) (simp add: digit_not_space)
  next
    case False
    with 1 show ?thesis by (subst (1 2) str_nat.simps) (simp add: digit_not_space)
  qed
qed

lemma first_occurrences_set [simp]: "set (first_occurrences xs) = set xs"
  by (induction xs) auto

lemma first_occurrences_distinct [simp]: "distinct (first_occurrences xs)"
  by (induction xs) auto

lemma unique_from_eq:
  "unique_from seen xs = seen @ filter (\<lambda>y. y \<notin> set seen) (first_occurrences xs)"
proof (induction xs arbitrary: seen)
  case Nil
  then show ?case by simp
next
  case (Cons x xs)
  show ?case
  proof (cases "x \<in> set seen")
    case True
    then have "filter (\<lambda>y. y \<notin> set seen) (filter (\<lambda>y. y \<noteq> x) (first_occurrences xs))
        = filter (\<lambda>y. y \<notin> set seen) (first_occurrences xs)"
      by (auto intro: filter_cong)
    with True Cons show ?thesis by simp
  next
    case False
    have "filter (\<lambda>y. y \<notin> set (seen @ [x])) (first_occurrences xs)
        = filter (\<lambda>y. y \<notin> set seen) (filter (\<lambda>y. y \<noteq> x) (first_occurrences xs))"
      by (auto intro: filter_cong)
    with False Cons show ?thesis by simp
  qed
qed

lemma unique_eq: "unique s = first_occurrences (vals s)"
  by (simp add: unique_def unique_from_eq)

lemma not_blank_if_char: "c \<in> set s \<Longrightarrow> \<not> is_space c \<Longrightarrow> strip s \<noteq> []"
  by (auto simp: strip_Nil_iff list_all_iff)

lemma str_int_not_blank: "strip (str_int i) \<noteq> []"
proof -
  obtain c where "c \<in> set (str_nat (nat \<bar>i\<bar>))" "\<not> is_space c"
    using str_nat_digits [of "nat \<bar>i\<bar>"] by (cases "str_nat (nat \<bar>i\<bar>)") auto
  then show ?thesis
    by (intro not_blank_if_char [of c]) (auto simp: str_int_def split: if_splits)
qed

lemma datetime_not_blank: "strip (py_str (PyDatetime y mo d h mi s)) \<noteq> []"
  by (rule not_blank_if_char [of "CHR ''-''"]) (simp_all add: is_space_def)

lemma kind_of_simps:
  "kind_of PyNone = ''Tom''"
  "kind_of (PyInt i) = ''Tal''"
  "kind_of (PyDatetime y mo d h mi se) = ''Datum''"
  "kind_of (PyStr t) = (if strip t = [] then ''Tom'' else ''Text'')"
  by (simp_all add: kind_of_def str_int_not_blank datetime_not_blank del: py_str.simps(3))

lemma counter_get_incr:
  "counter_get (counter_incr k c) k' d = (if k' = k then Suc (counter_get c k 0) else counter_get c k' d)"
  by (induction k c rule: counter_incr.induct) auto

lemma counter_sum_incr: "sum_list (map snd (counter_incr k c)) = Suc (sum_list (map snd c))"
  by (induction k c rule: counter_incr.induct) auto

lemma counter_keys_incr: "map fst (counter_incr k c) = (if k \<in> fst ` set c then map fst c else map fst c @ [k])"
  by (induction k c rule: counter_incr.induct) auto

lemma counter_pos_incr: "list_all (\<lambda>(k, n). 0 < n) c \<Longrightarrow> list_all (\<lambda>(k, n). 0 < n) (counter_incr k c)"
  by (induction k c rule: counter_incr.induct) auto

lemma count_kinds_get:
  "counter_get (count_kinds xs c) k 0 = counter_get c k 0 + length (filter (\<lambda>v. kind_of v = k) xs)"
  by (induction xs arbitrary: c) (auto simp: counter_get_incr)

lemma count_kinds_sum: "sum_list (map snd (count_kinds xs c)) = sum_list (map snd c) + length xs"
  by (induction xs arbitrary: c) (auto simp: counter_sum_incr)

lemma counter_keys_set_incr: "fst ` set (counter_incr k c) = insert k (fst ` set c)"
  by (induction k c rule: counter_incr.induct) auto

lemma count_kinds_keys: "fst ` set (count_kinds xs c) = fst ` set c \<union> kind_of ` set xs"
  by (induction xs arbitrary: c) (simp_all add: counter_keys_set_incr)

lemma count_kinds_distinct: "distinct (map fst c) \<Longrightarrow> distinct (map fst (count_kinds xs c))"
  by (induction xs arbitrary: c) (auto simp: counter_keys_incr)

lemma count_kinds_pos: "list_all (\<lambda>(k, n). 0 < n) c \<Longrightarrow> list_all (\<lambda>(k, n). 0 < n) (count_kinds xs c)"
  by (induction xs arbitrary: c) (auto simp: counter_pos_incr)

lemma num_empty_to_add_div:
  "num_empty_to_add s = (counter_get (type_counts s) ''Tom'' 0 * EXAMPLE_COUNT) div length (vals s)"
proof -
  let ?c = "counter_get (type_counts s) ''Tom'' 0" and ?n = "length (vals s)"
  have "(of_nat ?c / of_nat ?n * of_nat EXAMPLE_COUNT :: rat) = of_nat (?c * EXAMPLE_COUNT) / of_nat ?n"
    by simp
  then show ?thesis
    by (simp only: num_empty_to_add_def floor_divide_of_nat_eq nat_int)
qed

section \<open>What the two functions compute\<close>

lemma infer_dtype_text:
  assumes "list_all is_str xs"
  shows "infer_dtype xs = Object"
proof (cases xs)
  case Nil
  then show ?thesis
    by (simp add: infer_dtype_def)
next
  case (Cons x ys)
  with assms have "is_str x"
    by simp
  then obtain t where "x = PyStr t"
    by (cases x) simp_all
  with Cons show ?thesis
    by (simp add: infer_dtype_def)
qed

lemma astype_str_dtype: "dtype (infer_objects (astype_str s)) = Object"
  by (simp add: infer_objects_def astype_str_def infer_dtype_text list_all_iff)

lemma generate_fake_data_eq:
  "generate_fake_data fake s col_name g = Inr (chosen_generator fake col_name g)"
  by (simp add: generate_fake_data_def chosen_generator_def Let_def astype_str_dtype
      split: prod.splits)

lemma chosen_generator_no_rule:
  "\<not> matches_name_rule col_name \<Longrightarrow> chosen_generator fake col_name = fake_word fake"
  by (simp add: matches_name_rule_def chosen_generator_def Let_def)

lemma draws_length [simp]: "length (fst (draws gen n g)) = n"
proof (induction n arbitrary: g)
  case 0
  then show ?case by simp
next
  case (Suc n)
  obtain x g' where a: "gen g = (x, g')" by (cases "gen g")
  obtain xs g'' where b: "draws gen n g' = (xs, g'')" by (cases "draws gen n g'")
  from Suc [of g'] b have "length xs = n" by simp
  with a b show ?case by simp
qed

lemma fake_loop_eq:
  "fake_loop fake s col_name n acc g =
     Inr (acc @ map PyStr (fst (draws (chosen_generator fake col_name) n g)),
          snd (draws (chosen_generator fake col_name) n g))"
  by (induction n arbitrary: acc g) (auto simp: generate_fake_data_eq split: prod.splits)

lemma kind_of_Tom: "kind_of v = ''Tom'' \<longleftrightarrow> is_empty_value v"
  by (simp add: kind_of_def is_empty_value_def)

lemma tom_count: "counter_get (type_counts s) ''Tom'' 0 = length (filter is_empty_value (vals s))"
  by (simp add: type_counts_def count_kinds_get kind_of_Tom)

lemma num_empty_to_add_eq:
  "num_empty_to_add s = (length (filter is_empty_value (vals s)) * EXAMPLE_COUNT) div length (vals s)"
  by (simp add: num_empty_to_add_div tom_count)

lemma num_empty_to_add_le: "num_empty_to_add s \<le> EXAMPLE_COUNT"
proof (cases "vals s = []")
  case True
  then show ?thesis by (simp add: num_empty_to_add_eq)
next
  case False
  have "length (filter is_empty_value (vals s)) * EXAMPLE_COUNT \<le> length (vals s) * EXAMPLE_COUNT"
    by (simp add: mult_le_mono1)
  then have "num_empty_to_add s \<le> (length (vals s) * EXAMPLE_COUNT) div length (vals s)"
    unfolding num_empty_to_add_eq by (rule div_le_mono)
  with False show ?thesis by simp
qed

lemma analyze_column_categorical:
  "vals s \<noteq> [] \<Longrightarrow> is_categorical s \<Longrightarrow>
   analyze_column fake s col_name g =
     Inr ((type_summary s,
           drop (num_empty_to_add s) (take EXAMPLE_COUNT (unique_values s)) @
             replicate (num_empty_to_add s) empty_marker,
           note_categorical (length (unique_values s))), g)"
  by (simp add: analyze_column_def)

lemma analyze_column_variable:
  "vals s \<noteq> [] \<Longrightarrow> \<not> is_categorical s \<Longrightarrow>
   analyze_column fake s col_name g =
     Inr ((type_summary s,
           drop (num_empty_to_add s)
             (map PyStr (fst (draws (chosen_generator fake col_name) EXAMPLE_COUNT g))) @
             replicate (num_empty_to_add s) empty_marker,
           note_variable), snd (draws (chosen_generator fake col_name) EXAMPLE_COUNT g))"
  by (simp add: analyze_column_def fake_loop_eq)

lemma analyze_column_empty:
  "vals s = [] \<Longrightarrow> analyze_column fake s col_name g = Inr ((Text ''Tom kolumn'', [], ''Ingen data''), g)"
  by (simp add: analyze_column_def)

lemma shares_sum:
  "sum_list (map snd (map (\<lambda>(t, c). (t, of_nat c / (of_nat n :: rat))) tc)) =
     of_nat (sum_list (map snd tc)) / of_nat n"
  by (induction tc) (auto simp: add_divide_distrib)

lemma kind_of_cases:
  "kind_of v = ''Tal'' \<longleftrightarrow> \<not> is_empty_value v \<and> is_number v"
  "kind_of v = ''Datum'' \<longleftrightarrow> \<not> is_empty_value v \<and> \<not> is_number v \<and> is_datetime v"
  "kind_of v = ''Text'' \<longleftrightarrow> \<not> is_empty_value v \<and> \<not> is_number v \<and> \<not> is_datetime v"
  by (simp_all add: kind_of_def is_empty_value_def)

lemma kind_partition:
  "length (filter (\<lambda>v. kind_of v = ''Tom'') xs) + length (filter (\<lambda>v. kind_of v = ''Tal'') xs) +
   length (filter (\<lambda>v. kind_of v = ''Datum'') xs) + length (filter (\<lambda>v. kind_of v = ''Text'') xs) =
   length xs"
  by (induction xs) (auto simp: kind_of_def)

lemma analyze_column_summary:
  "vals s \<noteq> [] \<Longrightarrow>
   \<exists>ex label g'. analyze_column fake s col_name g = Inr ((type_summary s, ex, label), g')"
  by (cases "is_categorical s") (simp_all add: analyze_column_categorical analyze_column_variable)

lemma marker_slots_eq: "num_empty_to_add s = marker_slots s"
  by (simp add: num_empty_to_add_def marker_slots_def empty_fraction_def tom_count)

lemma marker_slots_div:
  "marker_slots s = (length (filter is_empty_value (vals s)) * EXAMPLE_COUNT) div length (vals s)"
  using num_empty_to_add_eq [of s] by (simp add: marker_slots_eq)

lemma marker_slots_le: "marker_slots s \<le> EXAMPLE_COUNT"
  using num_empty_to_add_le [of s] by (simp add: marker_slots_eq)

lemma lower_personnummer: "lower ''Personnummer'' = ''personnummer''"
  by code_simp

lemma chosen_generator_personnummer: "chosen_generator fake ''Personnummer'' = fake_ssn fake"
  by (simp add: chosen_generator_def lower_personnummer foretag_def)

lemma draws_all: "(\<And>g. P (fst (gen g))) \<Longrightarrow> list_all P (fst (draws gen n g))"
proof (induction n arbitrary: g)
  case 0
  then show ?case by simp
next
  case (Suc n)
  obtain x g' where a: "gen g = (x, g')" by (cases "gen g")
  obtain xs g'' where b: "draws gen n g' = (xs, g'')" by (cases "draws gen n g'")
  from Suc.prems [of g] a have "P x" by simp
  moreover from Suc.IH [of g'] Suc.prems b have "list_all P xs" by simp
  ultimately show ?case using a b by simp
qed

lemma not_categorical_if:
  "dtype s \<noteq> Object \<or> CATEGORICAL_THRESHOLD < length (unique_values s) \<Longrightarrow> \<not> is_categorical s"
  by (cases "dtype s") (auto simp: is_categorical_def dropna_def)

lemma alder_no_rule: "\<not> matches_name_rule (CHR 0xC5 # ''lder'')"
  by code_simp

lemma unique_values_eq: "unique_values s = first_occurrences (filter (\<lambda>v. \<not> isna v) (vals s))"
  by (simp add: unique_values_def unique_eq dropna_def)

lemma blank_free_empty: "\<not> is_blank v \<Longrightarrow> is_empty_value v \<longleftrightarrow> isna v"
  by (auto simp: is_blank_def is_empty_value_def)

lemma blank_free_distinct:
  assumes "list_all (\<lambda>v. \<not> is_blank v) (vals s)"
  shows "distinct_non_empty s = unique_values s"
proof -
  have "filter (\<lambda>v. \<not> is_empty_value v) (vals s) = filter (\<lambda>v. \<not> isna v) (vals s)"
    using assms by (intro filter_cong) (auto simp: list_all_iff blank_free_empty)
  then show ?thesis
    by (simp add: distinct_non_empty_def unique_values_eq)
qed

lemma is_categorical_iff:
  "is_categorical s \<longleftrightarrow>
     0 < length (unique_values s) \<and> length (unique_values s) \<le> CATEGORICAL_THRESHOLD \<and>
     dtype s = Object"
  by (cases "dtype s") (auto simp: is_categorical_def dropna_def)

lemma text_kind: "kind_of v = ''Text'' \<Longrightarrow> is_str v"
  by (cases v) (simp_all add: kind_of_simps split: if_splits)

lemma spec_categorical_dtype:
  assumes "wf_series s" and "categorical_spec s"
  shows "dtype s = Object"
proof -
  from assms(2) obtain v where v: "v \<in> set (distinct_non_empty s)" "kind_of v = ''Text''"
    by (cases "distinct_non_empty s") (auto simp: categorical_spec_def)
  then have vs: "v \<in> set (vals s)" and st: "is_str v"
    by (auto simp: distinct_non_empty_def text_kind)
  obtain t where "v = PyStr t"
    using st by (cases v) simp_all
  with vs have m: "PyStr t \<in> set (vals s)"
    by simp
  have no: "\<not> list_all P (vals s)" if "\<not> P (PyStr t)" for P
    using m that by (auto simp: list_all_iff)
  have "\<not> list_all fits_int64 (vals s)"
    "\<not> list_all fits_uint64 (vals s)"
    "\<not> list_all (\<lambda>v. is_number v \<or> isna v) (vals s)"
    "\<not> list_all (\<lambda>v. fits_timestamp v \<or> isna v) (vals s)"
    by (rule no, simp)+
  with assms(1) show ?thesis
    by (cases "dtype s") (simp_all add: wf_series_def)
qed

lemma native_not_categorical:
  assumes "list_all fits_int64 xs \<or> list_all fits_uint64 xs \<or> list_all fits_timestamp xs"
  shows "\<not> is_categorical (Series xs)"
proof (cases xs)
  case Nil
  then show ?thesis
    by (simp add: is_categorical_iff unique_values_eq Series_def)
next
  case (Cons x ys)
  from assms have "infer_dtype xs \<noteq> Object"
  proof (elim disjE)
    assume "list_all fits_int64 xs"
    with Cons show ?thesis
      by (simp add: infer_dtype_def)
  next
    assume "list_all fits_uint64 xs"
    with Cons show ?thesis
      by (simp add: infer_dtype_def)
  next
    assume dt: "list_all fits_timestamp xs"
    then have "list_all (\<lambda>v. fits_timestamp v \<or> isna v) xs"
      by (simp add: list_all_iff)
    then show ?thesis
      using Cons by (simp add: infer_dtype_def)
  qed
  then show ?thesis
    by (simp add: is_categorical_iff Series_def)
qed

lemma wide_number_is_categorical: "is_categorical (Series [PyInt 18446744073709551616])"
  by (simp add: is_categorical_iff unique_values_eq Series_def infer_dtype_def
      CATEGORICAL_THRESHOLD_def)

lemma analyze_column_label:
  "vals s \<noteq> [] \<Longrightarrow>
   \<exists>summ ex g'. analyze_column fake s col_name g =
     Inr ((summ, ex,
           if is_categorical s then note_categorical (length (unique_values s))
           else note_variable), g')"
  by (cases "is_categorical s") (simp_all add: analyze_column_categorical analyze_column_variable)

lemma counter_get_mem: "k \<in> fst ` set c \<Longrightarrow> (k, counter_get c k d) \<in> set c"
  by (induction c k d rule: counter_get.induct) auto

lemma all_empty_slots:
  assumes "vals s \<noteq> []" and "list_all is_empty_value (vals s)"
  shows "marker_slots s = EXAMPLE_COUNT"
proof -
  from assms(2) have "filter is_empty_value (vals s) = vals s"
    by (simp add: list_all_iff)
  with assms(1) show ?thesis
    by (simp add: marker_slots_div)
qed

lemma all_empty_markers:
  assumes "vals s \<noteq> []" and "list_all is_empty_value (vals s)"
  shows "\<exists>label g'. analyze_column fake s col_name g =
    Inr ((type_summary s, replicate EXAMPLE_COUNT empty_marker, label), g')"
  using assms all_empty_slots [OF assms]
  by (cases "is_categorical s")
     (simp_all add: analyze_column_categorical analyze_column_variable marker_slots_eq)

lemma all_missing_variable:
  assumes "vals s \<noteq> []" and "list_all isna (vals s)"
  shows "\<exists>g'. analyze_column fake s col_name g =
    Inr ((type_summary s, replicate EXAMPLE_COUNT empty_marker, note_variable), g')"
proof -
  from assms(2) have "filter (\<lambda>v. \<not> isna v) (vals s) = []"
    by (simp add: list_all_iff)
  then have v: "\<not> is_categorical s"
    by (simp add: is_categorical_def unique_values_def unique_def dropna_def)
  from assms(2) have "list_all is_empty_value (vals s)"
    by (simp add: list_all_iff is_empty_value_def)
  from all_empty_slots [OF assms(1) this] assms(1) v show ?thesis
    by (simp add: analyze_column_variable marker_slots_eq)
qed

lemma categorical_examples_blank_free:
  assumes "vals s \<noteq> []" and "is_categorical s"
    and "list_all (\<lambda>v. \<not> is_blank v) (vals s)"
  shows "analyze_column fake s col_name g =
    Inr ((type_summary s,
          drop (marker_slots s) (take EXAMPLE_COUNT (distinct_non_empty s)) @
            replicate (marker_slots s) empty_marker,
          note_categorical (length (distinct_non_empty s))), g)"
  using assms by (simp add: analyze_column_categorical blank_free_distinct marker_slots_eq)

lemma stockholm_example:
  "analyze_column fake
     (Series [PyStr ''Stockholm'', PyStr (''Malm'' @ [CHR 0xF6]), PyStr ''Stockholm'',
              PyStr (CHR ''G'' # CHR 0xF6 # ''teborg'')]) ''Stad'' g =
     Inr ((Shares [(''Text'', 1)],
           [PyStr ''Stockholm'', PyStr (''Malm'' @ [CHR 0xF6]),
            PyStr (CHR ''G'' # CHR 0xF6 # ''teborg'')],
           note_categorical 3), g)"
proof -
  let ?s = "Series [PyStr ''Stockholm'', PyStr (''Malm'' @ [CHR 0xF6]), PyStr ''Stockholm'',
              PyStr (CHR ''G'' # CHR 0xF6 # ''teborg'')]"
  have "vals ?s \<noteq> []" "is_categorical ?s" "list_all (\<lambda>v. \<not> is_blank v) (vals ?s)"
    "type_summary ?s = Shares [(''Text'', 1)]" "marker_slots ?s = 0"
    "take EXAMPLE_COUNT (distinct_non_empty ?s) =
       [PyStr ''Stockholm'', PyStr (''Malm'' @ [CHR 0xF6]),
        PyStr (CHR ''G'' # CHR 0xF6 # ''teborg'')]"
    "note_categorical (length (distinct_non_empty ?s)) = note_categorical 3"
    by code_simp+
  then show ?thesis
    by (simp add: categorical_examples_blank_free)
qed

lemma tom_share:
  assumes "v \<in> set (vals s)" and "is_empty_value v"
  shows "\<exists>ps. type_summary s = Shares ps \<and> (''Tom'', empty_fraction s) \<in> set ps"
proof -
  from assms have "''Tom'' \<in> kind_of ` set (vals s)"
    by (force simp: kind_of_Tom [symmetric])
  then have "''Tom'' \<in> fst ` set (type_counts s)"
    by (simp add: type_counts_def count_kinds_keys)
  then have "(''Tom'', counter_get (type_counts s) ''Tom'' 0) \<in> set (type_counts s)"
    by (rule counter_get_mem)
  then have "(''Tom'', length (filter is_empty_value (vals s))) \<in> set (type_counts s)"
    by (simp add: tom_count)
  then have "(''Tom'', empty_fraction s) \<in>
      set (map (\<lambda>(t, c). (t, of_nat c / of_nat (length (vals s)))) (type_counts s))"
    by (force simp: empty_fraction_def)
  then show ?thesis
    by (simp add: type_summary_def)
qed

section \<open>The column without rows\<close>

text \<open>
  C9. For a sample of zero rows, \<open>analyze_column\<close> returns the sentinel
  \<^verbatim>\<open>("Tom kolumn", [], "Ingen data")\<close>: a label in place of type shares, an empty example
  list and the note that there is no data. It returns normally (\<open>Inr\<close>), and the state
  of the generators is the one it was given, whatever the generators are: no example
  was synthesized.
\<close>

theorem zero_rows_sentinel:
  "vals s = [] \<Longrightarrow>
   analyze_column fake s col_name g = Inr ((Text ''Tom kolumn'', [], ''Ingen data''), g)"
  by (simp add: analyze_column_def)

theorem zero_rows_sentinel_witness:
  "vals (Series []) = [] \<and>
   analyze_column demo_generators (Series []) ''Stad'' 0 =
     Inr ((Text ''Tom kolumn'', [], ''Ingen data''), 0)"
proof -
  have h: "vals (Series []) = []"
    by (simp add: Series_def)
  from zero_rows_sentinel [OF h, of demo_generators "''Stad''" 0] h show ?thesis
    by simp
qed

section \<open>Type shares\<close>

text \<open>
  C8. For a sample with at least one row, every row is counted under exactly one of the
  four kinds, tested in the order Empty (\<^verbatim>\<open>Tom\<close>: missing, or blank as text), Numeric
  (\<^verbatim>\<open>Tal\<close>), Temporal (\<^verbatim>\<open>Datum\<close>), Textual (\<^verbatim>\<open>Text\<close>): the count of each kind is the
  number of rows that pass its test and none of the earlier ones, and the four counts add
  up to the number of rows. The summary that \<open>analyze_column\<close> returns pairs each kind
  with its count divided by the number of rows; these shares add up to 1, every listed
  share is positive and every kind is listed once, so the kinds listed are exactly the
  kinds that occur. The shares are exact fractions here; how the report prints them as
  rounded percentages is not part of the model.
\<close>

theorem type_shares_partition:
  assumes "vals s \<noteq> []"
  shows "\<exists>ps ex label g'.
     analyze_column fake s col_name g = Inr ((Shares ps, ex, label), g') \<and>
     ps = map (\<lambda>(k, c). (k, of_nat c / of_nat (length (vals s)))) (type_counts s) \<and>
     counter_get (type_counts s) ''Tom'' 0 = length (filter is_empty_value (vals s)) \<and>
     counter_get (type_counts s) ''Tal'' 0 =
       length (filter (\<lambda>v. \<not> is_empty_value v \<and> is_number v) (vals s)) \<and>
     counter_get (type_counts s) ''Datum'' 0 =
       length (filter (\<lambda>v. \<not> is_empty_value v \<and> \<not> is_number v \<and> is_datetime v) (vals s)) \<and>
     counter_get (type_counts s) ''Text'' 0 =
       length (filter (\<lambda>v. \<not> is_empty_value v \<and> \<not> is_number v \<and> \<not> is_datetime v) (vals s)) \<and>
     counter_get (type_counts s) ''Tom'' 0 + counter_get (type_counts s) ''Tal'' 0 +
       counter_get (type_counts s) ''Datum'' 0 + counter_get (type_counts s) ''Text'' 0 =
       length (vals s) \<and>
     sum_list (map snd (type_counts s)) = length (vals s) \<and>
     sum_list (map snd ps) = 1 \<and>
     list_all (\<lambda>(k, f). 0 < f) ps \<and>
     distinct (map fst ps) \<and>
     fst ` set ps = kind_of ` set (vals s)"
proof -
  let ?ps = "map (\<lambda>(k, c). (k, of_nat c / of_nat (length (vals s)) :: rat)) (type_counts s)"
  obtain ex label g' where res:
    "analyze_column fake s col_name g = Inr ((Shares ?ps, ex, label), g')"
    using analyze_column_summary [OF assms, of fake col_name g]
    by (auto simp: type_summary_def)
  have get: "counter_get (type_counts s) k 0 = length (filter (\<lambda>v. kind_of v = k) (vals s))" for k
    by (simp add: type_counts_def count_kinds_get)
  have total: "sum_list (map snd (type_counts s)) = length (vals s)"
    by (simp add: type_counts_def count_kinds_sum)
  have one: "sum_list (map snd ?ps) = 1"
    unfolding shares_sum total using assms by simp
  have "list_all (\<lambda>(k, n). 0 < n) (type_counts s)"
    by (simp add: type_counts_def count_kinds_pos)
  then have pos: "list_all (\<lambda>(k, f). 0 < f) ?ps"
    using assms by (auto simp: list_all_iff)
  have mk: "map fst ?ps = map fst (type_counts s)"
    by (simp add: comp_def case_prod_unfold)
  have "distinct (map fst (type_counts s))"
    unfolding type_counts_def by (rule count_kinds_distinct) simp
  then have keys1: "distinct (map fst ?ps)"
    by (simp only: mk)
  have "fst ` set ?ps = set (map fst ?ps)"
    by (simp only: set_map)
  also have "\<dots> = fst ` set (type_counts s)"
    by (simp only: mk set_map)
  also have "\<dots> = kind_of ` set (vals s)"
    by (simp add: type_counts_def count_kinds_keys)
  finally have keys2: "fst ` set ?ps = kind_of ` set (vals s)" .
  show ?thesis
    using res get kind_partition [of "vals s"] total one pos keys1 keys2
    by (intro exI [of _ ?ps] exI [of _ ex] exI [of _ label] exI [of _ g'])
       (simp add: kind_of_Tom kind_of_cases)
qed

theorem type_shares_partition_witness:
  "vals (Series [PyNone, PyInt 18, PyStr ''a'']) \<noteq> [] \<and>
   (\<exists>ps ex label g'.
      analyze_column demo_generators (Series [PyNone, PyInt 18, PyStr ''a'']) ''Stad'' 0 =
        Inr ((Shares ps, ex, label), g') \<and>
      sum_list (map snd ps) = 1 \<and>
      list_all (\<lambda>(k, f). 0 < f) ps)"
proof -
  have h: "vals (Series [PyNone, PyInt 18, PyStr ''a'']) \<noteq> []"
    by (simp add: Series_def)
  from type_shares_partition [OF h, of demo_generators "''Stad''" 0] h show ?thesis
    by blast
qed

section \<open>Empty slots in the example list\<close>

text \<open>
  C3. For a sample with at least one row, let \<open>k\<close> be the floor of the observed Empty
  proportion times \<open>EXAMPLE_COUNT\<close> (\<open>marker_slots\<close>), and let \<open>base\<close> be the examples
  selected (categorical column: the first \<open>EXAMPLE_COUNT\<close> distinct values) or generated
  (otherwise: the \<open>EXAMPLE_COUNT\<close> values the loop over \<open>generate_fake_data\<close> appends).
  The example list returned is \<open>base\<close> without its first \<open>k\<close> entries, followed by \<open>k\<close>
  empty markers. \<open>k\<close> never exceeds \<open>EXAMPLE_COUNT\<close>, and when it reaches it the list
  is all markers. For a column that is not categorical, with 50 rows of which 10 are
  Empty, \<open>k\<close> is 1: the list has \<open>EXAMPLE_COUNT\<close> entries, the last one is the marker, the
  others are the generated examples after the first, and the marker occurs exactly once
  unless a generator itself produced the marker text.
\<close>

theorem empty_slot_substitution:
  assumes "vals s \<noteq> []"
  shows "\<exists>base ex label g'.
     (if is_categorical s
      then base = take EXAMPLE_COUNT (unique_values s) \<and> g' = g
      else fake_loop fake (dropna s) col_name EXAMPLE_COUNT [] g = Inr (base, g') \<and>
           length base = EXAMPLE_COUNT) \<and>
     ex = drop (marker_slots s) base @ replicate (marker_slots s) empty_marker \<and>
     analyze_column fake s col_name g = Inr ((type_summary s, ex, label), g') \<and>
     marker_slots s \<le> EXAMPLE_COUNT \<and>
     (EXAMPLE_COUNT \<le> marker_slots s \<longrightarrow> ex = replicate EXAMPLE_COUNT empty_marker) \<and>
     (\<not> is_categorical s \<and> length (vals s) = 50 \<and>
        length (filter is_empty_value (vals s)) = 10 \<longrightarrow>
      marker_slots s = 1 \<and> length ex = EXAMPLE_COUNT \<and> last ex = empty_marker \<and>
      butlast ex = drop 1 base \<and>
      (empty_marker \<notin> set base \<longrightarrow> count_list ex empty_marker = 1))"
proof -
  let ?k = "marker_slots s"
  obtain base label g' where
    c1: "if is_categorical s
         then base = take EXAMPLE_COUNT (unique_values s) \<and> g' = g
         else fake_loop fake (dropna s) col_name EXAMPLE_COUNT [] g = Inr (base, g') \<and>
              length base = EXAMPLE_COUNT"
    and c3: "analyze_column fake s col_name g =
         Inr ((type_summary s, drop ?k base @ replicate ?k empty_marker, label), g')"
  proof (cases "is_categorical s")
    case True
    with assms that [of "take EXAMPLE_COUNT (unique_values s)" g] show ?thesis
      by (simp add: analyze_column_categorical marker_slots_eq)
  next
    case False
    let ?d = "draws (chosen_generator fake col_name) EXAMPLE_COUNT g"
    from False assms that [of "map PyStr (fst ?d)" "snd ?d"] show ?thesis
      by (simp add: analyze_column_variable marker_slots_eq fake_loop_eq)
  qed
  let ?ex = "drop ?k base @ replicate ?k empty_marker"
  have len: "length base \<le> EXAMPLE_COUNT"
    using c1 by (simp split: if_splits)
  have c4: "?k \<le> EXAMPLE_COUNT"
    by (rule marker_slots_le)
  have c5: "EXAMPLE_COUNT \<le> ?k \<longrightarrow> ?ex = replicate EXAMPLE_COUNT empty_marker"
    using c4 len by auto
  have c6: "\<not> is_categorical s \<and> length (vals s) = 50 \<and>
        length (filter is_empty_value (vals s)) = 10 \<longrightarrow>
      ?k = 1 \<and> length ?ex = EXAMPLE_COUNT \<and> last ?ex = empty_marker \<and>
      butlast ?ex = drop 1 base \<and>
      (empty_marker \<notin> set base \<longrightarrow> count_list ?ex empty_marker = 1)"
  proof (intro impI, elim conjE)
    assume v: "\<not> is_categorical s"
      and "length (vals s) = 50" "length (filter is_empty_value (vals s)) = 10"
    then have one: "?k = 1"
      by (simp add: marker_slots_div EXAMPLE_COUNT_def)
    from v c1 have five: "length base = EXAMPLE_COUNT"
      by simp
    have "count_list ?ex empty_marker = 1" if "empty_marker \<notin> set base"
    proof -
      from that have "empty_marker \<notin> set (drop 1 base)"
        by (meson in_set_dropD)
      then show ?thesis
        by (simp add: one count_list_0_iff)
    qed
    with one five show "?k = 1 \<and> length ?ex = EXAMPLE_COUNT \<and> last ?ex = empty_marker \<and>
      butlast ?ex = drop 1 base \<and>
      (empty_marker \<notin> set base \<longrightarrow> count_list ?ex empty_marker = 1)"
      by (simp add: EXAMPLE_COUNT_def butlast_append)
  qed
  show ?thesis
    by (intro exI conjI) (rule c1 refl c3 c4 c5 c6)+
qed


theorem empty_slot_substitution_witness:
  "vals (Series (replicate 10 PyNone @ replicate 40 (PyInt 7))) \<noteq> [] \<and>
   \<not> is_categorical (Series (replicate 10 PyNone @ replicate 40 (PyInt 7))) \<and>
   length (vals (Series (replicate 10 PyNone @ replicate 40 (PyInt 7)))) = 50 \<and>
   length (filter is_empty_value
     (vals (Series (replicate 10 PyNone @ replicate 40 (PyInt 7))))) = 10 \<and>
   (\<exists>ex label g'.
      analyze_column demo_generators (Series (replicate 10 PyNone @ replicate 40 (PyInt 7)))
        ''Belopp'' 0 =
        Inr ((type_summary (Series (replicate 10 PyNone @ replicate 40 (PyInt 7))), ex, label),
             g') \<and>
      length ex = EXAMPLE_COUNT \<and> last ex = empty_marker)"
proof -
  let ?s = "Series (replicate 10 PyNone @ replicate 40 (PyInt 7))"
  have h1: "vals ?s \<noteq> []"
    by code_simp
  have h2: "\<not> is_categorical ?s"
    by code_simp
  have h3: "length (vals ?s) = 50"
    by code_simp
  have h4: "length (filter is_empty_value (vals ?s)) = 10"
    by code_simp
  from empty_slot_substitution [OF h1, where fake = demo_generators and col_name = "''Belopp''" and g = 0] h1 h2 h3 h4
  show ?thesis
    by blast
qed

section \<open>Length of the example list\<close>

text \<open>
  C6, as the code has it. \<open>analyze_column\<close> always returns; its example list is empty
  for a sample without rows, has exactly \<open>EXAMPLE_COUNT\<close> entries for a column that is
  not categorical, and for a categorical column with \<open>u\<close> distinct values and \<open>k\<close> marker
  slots has \<open>max (min u EXAMPLE_COUNT) k\<close> entries: \<open>EXAMPLE_COUNT\<close> when there are at
  least that many distinct values, fewer when \<open>u\<close> and \<open>k\<close> are both smaller.
\<close>

theorem example_list_length:
  "\<exists>summ ex label g'.
     analyze_column fake s col_name g = Inr ((summ, ex, label), g') \<and>
     length ex =
       (if vals s = [] then 0
        else if is_categorical s
          then max (min (length (unique_values s)) EXAMPLE_COUNT) (marker_slots s)
        else EXAMPLE_COUNT) \<and>
     (vals s \<noteq> [] \<and> (\<not> is_categorical s \<or> EXAMPLE_COUNT \<le> length (unique_values s)) \<longrightarrow>
      length ex = EXAMPLE_COUNT)"
proof (cases "vals s = []")
  case True
  then show ?thesis
    by (simp add: analyze_column_empty)
next
  case False
  show ?thesis
  proof (cases "is_categorical s")
    case True
    with False marker_slots_le [of s] show ?thesis
      by (auto simp: analyze_column_categorical marker_slots_eq)
  next
    case c: False
    with False marker_slots_le [of s] show ?thesis
      by (auto simp: analyze_column_variable marker_slots_eq)
  qed
qed

theorem example_list_length_witness:
  "vals (Series [PyInt 18, PyInt 30]) \<noteq> [] \<and>
   \<not> is_categorical (Series [PyInt 18, PyInt 30]) \<and>
   (\<exists>summ ex label g'.
      analyze_column demo_generators (Series [PyInt 18, PyInt 30]) ''Belopp'' 0 =
        Inr ((summ, ex, label), g') \<and>
      length ex = EXAMPLE_COUNT)"
proof -
  have h: "vals (Series [PyInt 18, PyInt 30]) \<noteq> []"
    "\<not> is_categorical (Series [PyInt 18, PyInt 30])"
    by code_simp+
  with example_list_length [where fake = demo_generators and col_name = "''Belopp''"
      and g = 0 and s = "Series [PyInt 18, PyInt 30]"]
  show ?thesis
    by auto
qed

text \<open>
  The claim that the list always has \<open>EXAMPLE_COUNT\<close> entries fails on the categorical
  column of three distinct city names: its list has three entries.
\<close>

theorem example_list_length_counterexample:
  "analyze_column demo_generators
     (Series [PyStr ''Stockholm'', PyStr (''Malm'' @ [CHR 0xF6]), PyStr ''Stockholm'',
              PyStr (CHR ''G'' # CHR 0xF6 # ''teborg'')]) ''Stad'' 0 =
     Inr ((Shares [(''Text'', 1)],
           [PyStr ''Stockholm'', PyStr (''Malm'' @ [CHR 0xF6]),
            PyStr (CHR ''G'' # CHR 0xF6 # ''teborg'')],
           note_categorical 3), 0) \<and>
   length [PyStr ''Stockholm'', PyStr (''Malm'' @ [CHR 0xF6]),
           PyStr (CHR ''G'' # CHR 0xF6 # ''teborg'')] \<noteq> EXAMPLE_COUNT"
  by code_simp

section \<open>A column of national identity numbers\<close>

text \<open>
  C1, as the code has it. A column named \<^verbatim>\<open>Personnummer\<close> with at least one row is
  classified as variable when its dtype is not \<^verbatim>\<open>object\<close> (the numbers are stored as
  numbers) or when it holds more than \<open>CATEGORICAL_THRESHOLD\<close> distinct values. Then
  every example that is not an empty marker is a value of the generator of national
  identity numbers, \<^verbatim>\<open>fake.ssn()\<close>, in the order drawn: the list is determined by the
  generator, its state and the number of marker slots, and by nothing else of the
  sample. Whatever holds of every value of that generator, such as its format, holds
  of every generated example.
\<close>

theorem personnummer_variable:
  assumes "vals s \<noteq> []"
    and "dtype s \<noteq> Object \<or> CATEGORICAL_THRESHOLD < length (unique_values s)"
  shows "analyze_column fake s ''Personnummer'' g =
      Inr ((type_summary s,
            drop (marker_slots s) (map PyStr (fst (draws (fake_ssn fake) EXAMPLE_COUNT g))) @
              replicate (marker_slots s) empty_marker,
            note_variable),
           snd (draws (fake_ssn fake) EXAMPLE_COUNT g)) \<and>
    ((\<forall>g'. P (fst (fake_ssn fake g'))) \<longrightarrow>
       list_all P (fst (draws (fake_ssn fake) EXAMPLE_COUNT g)))"
proof -
  from assms(2) have "\<not> is_categorical s"
    by (rule not_categorical_if)
  with assms(1) show ?thesis
    by (simp add: analyze_column_variable chosen_generator_personnummer marker_slots_eq draws_all)
qed

theorem personnummer_variable_witness:
  "vals (Series [PyInt 8501011234, PyInt 9002022345]) \<noteq> [] \<and>
   dtype (Series [PyInt 8501011234, PyInt 9002022345]) = Int64 \<and>
   (\<forall>g'. hd (fst (fake_ssn demo_generators g')) = CHR ''S'') \<and>
   analyze_column demo_generators (Series [PyInt 8501011234, PyInt 9002022345])
       ''Personnummer'' 0 =
     Inr ((Shares [(''Tal'', 1)],
           [PyStr ''S0'', PyStr ''S1'', PyStr ''S2'', PyStr ''S3'', PyStr ''S4''],
           note_variable), 5) \<and>
   list_all (\<lambda>x. hd x = CHR ''S'') (fst (draws (fake_ssn demo_generators) EXAMPLE_COUNT 0))"
proof -
  let ?s = "Series [PyInt 8501011234, PyInt 9002022345]"
  have h1: "vals ?s \<noteq> []"
    by (simp add: Series_def)
  have d: "dtype ?s = Int64"
    by (simp add: Series_def infer_dtype_def)
  then have h2: "dtype ?s \<noteq> Object \<or> CATEGORICAL_THRESHOLD < length (unique_values ?s)"
    by simp
  have p: "\<forall>g'. hd (fst (fake_ssn demo_generators g')) = CHR ''S''"
    by (simp add: demo_generators_def)
  have e1: "type_summary ?s = Shares [(''Tal'', 1)]"
    by (simp add: type_summary_def type_counts_def Series_def kind_of_simps)
  have e2: "marker_slots ?s = 0"
    by (simp add: marker_slots_def empty_fraction_def is_empty_value_def Series_def
        str_int_not_blank)
  have e3: "draws (fake_ssn demo_generators) EXAMPLE_COUNT 0 =
      ([''S0'', ''S1'', ''S2'', ''S3'', ''S4''], 5)"
    by code_simp
  note e = e1 e2 e3
  from personnummer_variable [OF h1 h2, where fake = demo_generators and g = 0
      and P = "\<lambda>x. hd x = CHR ''S''"] h1 d p e
  show ?thesis
    by simp
qed

text \<open>
  The claim that ten distinct numeric-looking strings make the column variable fails:
  strings are text, ten is within the threshold, so the column is categorical and its
  example list is the first five real values.
\<close>

theorem personnummer_variable_counterexample:
  "analyze_column demo_generators
     (Series [PyStr ''8501011234'', PyStr ''9002022345'', PyStr ''7803033456'',
              PyStr ''6504044567'', PyStr ''9205055678'', PyStr ''8806066789'',
              PyStr ''7107077890'', PyStr ''9508088901'', PyStr ''8309099012'',
              PyStr ''7910101123'']) ''Personnummer'' 0 =
     Inr ((Shares [(''Text'', 1)],
           [PyStr ''8501011234'', PyStr ''9002022345'', PyStr ''7803033456'',
            PyStr ''6504044567'', PyStr ''9205055678''],
           note_categorical 10), 0) \<and>
   note_categorical 10 \<noteq> note_variable"
  by code_simp

section \<open>A numeric column without a name rule\<close>

text \<open>
  C2. \<open>generate_fake_data\<close> converts the sample to text before it looks at its dtype, so
  the dtype it sees is never numeric (lemmas \<open>astype_str_dtype\<close> and
  \<open>generate_fake_data_eq\<close>): a column whose name matches no rule gets generic words,
  whatever it holds. For the column \<^verbatim>\<open>Alder\<close> (with U+00C5 as its first letter) holding
  18, 30 and 65, every example is a value of \<^verbatim>\<open>fake.word()\<close>; \<open>uniform_text\<close> is not
  called.
\<close>

theorem alder_examples_are_words:
  "analyze_column fake (Series [PyInt 18, PyInt 30, PyInt 65]) (CHR 0xC5 # ''lder'') g =
     Inr ((Shares [(''Tal'', 1)],
           map PyStr (fst (draws (fake_word fake) EXAMPLE_COUNT g)),
           note_variable),
          snd (draws (fake_word fake) EXAMPLE_COUNT g))"
proof -
  let ?s = "Series [PyInt 18, PyInt 30, PyInt 65]"
  have e: "vals ?s \<noteq> []" "\<not> is_categorical ?s" "type_summary ?s = Shares [(''Tal'', 1)]"
    "num_empty_to_add ?s = 0"
    by code_simp+
  then show ?thesis
    by (simp add: analyze_column_variable chosen_generator_no_rule [OF alder_no_rule])
qed

theorem alder_examples_are_words_witness:
  "analyze_column demo_generators (Series [PyInt 18, PyInt 30, PyInt 65]) (CHR 0xC5 # ''lder'') 0 =
     Inr ((Shares [(''Tal'', 1)],
           [PyStr ''W0'', PyStr ''W1'', PyStr ''W2'', PyStr ''W3'', PyStr ''W4''],
           note_variable), 5)"
proof -
  have "draws (fake_word demo_generators) EXAMPLE_COUNT 0 =
      ([''W0'', ''W1'', ''W2'', ''W3'', ''W4''], 5)"
    by code_simp
  with alder_examples_are_words [where fake = demo_generators and g = 0] show ?thesis
    by simp
qed

section \<open>The categorical test\<close>

text \<open>
  C4, as the code has it. For a sample without blank text values, the column is
  categorical exactly when the number of distinct non-empty values is above 0 and at
  most \<open>CATEGORICAL_THRESHOLD\<close> and the dtype of the column is \<^verbatim>\<open>object\<close>, the dtype of a
  column that holds text or a mix of kinds. In a well-formed column the specification's
  test (every distinct non-empty value is Textual) is sufficient for this, but it is not
  necessary. The note returned with the examples says categorical, with the number of
  distinct values, exactly in this case. A column whose dtype is numeric or datetime is
  never categorical; this is the dtype of a column built from numbers only that fit a
  64-bit integer, or from timestamps only that fit the nanosecond range. (A number or a
  date outside these ranges is kept as an object, and such a column can be categorical:
  lemma \<open>wide_number_is_categorical\<close>.)
\<close>

theorem categorical_iff_text_dtype:
  assumes "list_all (\<lambda>v. \<not> is_blank v) (vals s)"
  shows "(is_categorical s \<longleftrightarrow>
       0 < length (distinct_non_empty s) \<and>
       length (distinct_non_empty s) \<le> CATEGORICAL_THRESHOLD \<and>
       dtype s = Object) \<and>
     (wf_series s \<and> categorical_spec s \<longrightarrow> is_categorical s) \<and>
     (vals s \<noteq> [] \<longrightarrow>
        (\<exists>summ ex g'. analyze_column fake s col_name g =
           Inr ((summ, ex,
                 if is_categorical s then note_categorical (length (distinct_non_empty s))
                 else note_variable), g'))) \<and>
     (dtype s \<noteq> Object \<longrightarrow> \<not> is_categorical s) \<and>
     (list_all fits_int64 (vals s) \<or> list_all fits_uint64 (vals s) \<or>
      list_all fits_timestamp (vals s) \<longrightarrow>
        \<not> is_categorical (Series (vals s)))"
proof -
  note eq = blank_free_distinct [OF assms]
  have a: "is_categorical s \<longleftrightarrow>
       0 < length (distinct_non_empty s) \<and>
       length (distinct_non_empty s) \<le> CATEGORICAL_THRESHOLD \<and> dtype s = Object"
    by (simp only: eq is_categorical_iff)
  have b: "wf_series s \<and> categorical_spec s \<longrightarrow> is_categorical s"
    using spec_categorical_dtype [of s] by (auto simp: a categorical_spec_def)
  have c: "vals s \<noteq> [] \<longrightarrow>
        (\<exists>summ ex g'. analyze_column fake s col_name g =
           Inr ((summ, ex,
                 if is_categorical s then note_categorical (length (distinct_non_empty s))
                 else note_variable), g'))"
    using analyze_column_label [of s fake col_name g] by (simp only: eq) blast
  have d: "dtype s \<noteq> Object \<longrightarrow> \<not> is_categorical s"
    by (simp add: is_categorical_iff)
  have e: "list_all fits_int64 (vals s) \<or> list_all fits_uint64 (vals s) \<or>
      list_all fits_timestamp (vals s) \<longrightarrow>
        \<not> is_categorical (Series (vals s))"
    using native_not_categorical [of "vals s"] by blast
  from a b c d e show ?thesis
    by blast
qed

theorem categorical_iff_text_dtype_witness:
  "list_all (\<lambda>v. \<not> is_blank v) (vals (Series [PyStr ''Ja'', PyStr ''Nej'', PyNone])) \<and>
   wf_series (Series [PyStr ''Ja'', PyStr ''Nej'', PyNone]) \<and>
   categorical_spec (Series [PyStr ''Ja'', PyStr ''Nej'', PyNone]) \<and>
   is_categorical (Series [PyStr ''Ja'', PyStr ''Nej'', PyNone])"
proof -
  let ?s = "Series [PyStr ''Ja'', PyStr ''Nej'', PyNone]"
  have h: "list_all (\<lambda>v. \<not> is_blank v) (vals ?s)" "wf_series ?s" "categorical_spec ?s"
    by code_simp+
  from categorical_iff_text_dtype [OF h(1), THEN conjunct2, THEN conjunct1] h show ?thesis
    by simp
qed

text \<open>
  The specification's test is not the code's: a column holding the number 1 and the text
  \<^verbatim>\<open>a\<close> has dtype \<^verbatim>\<open>object\<close> and two distinct values, so it is categorical and the number
  is listed among its examples, although not every value is Textual.
\<close>

theorem categorical_iff_text_dtype_counterexample:
  "analyze_column demo_generators (Series [PyInt 1, PyStr ''a'']) ''Kod'' 0 =
     Inr ((Shares [(''Tal'', 1 / 2), (''Text'', 1 / 2)], [PyInt 1, PyStr ''a''],
           note_categorical 2), 0) \<and>
   is_categorical (Series [PyInt 1, PyStr ''a'']) \<and>
   \<not> categorical_spec (Series [PyInt 1, PyStr ''a''])"
  by code_simp

section \<open>Blank text values\<close>

text \<open>
  C5. A column in which every value is Empty gets an example list of markers only
  (lemma \<open>all_empty_markers\<close>), and it is variable when every value is missing (lemma
  \<open>all_missing_variable\<close>). A column of blank text is different: \<^verbatim>\<open>dropna\<close> keeps the
  blank strings that the counting loop counts as Empty, so the column of two
  single-space cells has one distinct value and is reported as categorical.
\<close>

theorem blank_column_is_categorical:
  "list_all is_empty_value (vals (Series [PyStr '' '', PyStr '' ''])) \<and>
   analyze_column fake (Series [PyStr '' '', PyStr '' '']) ''Kommentar'' g =
     Inr ((Shares [(''Tom'', 1)], replicate EXAMPLE_COUNT empty_marker, note_categorical 1), g)"
proof -
  let ?s = "Series [PyStr '' '', PyStr '' '']"
  have e: "list_all is_empty_value (vals ?s)" "vals ?s \<noteq> []" "is_categorical ?s"
    "type_summary ?s = Shares [(''Tom'', 1)]" "num_empty_to_add ?s = EXAMPLE_COUNT"
    "take EXAMPLE_COUNT (unique_values ?s) = [PyStr '' '']" "length (unique_values ?s) = 1"
    by code_simp+
  then show ?thesis
    by (simp add: analyze_column_categorical EXAMPLE_COUNT_def)
qed

theorem blank_column_is_categorical_witness:
  "analyze_column demo_generators (Series [PyStr '' '', PyStr '' '']) ''Kommentar'' 0 =
     Inr ((Shares [(''Tom'', 1)], replicate EXAMPLE_COUNT empty_marker, note_categorical 1), 0) \<and>
   note_categorical 1 \<noteq> note_variable"
proof -
  have "note_categorical 1 \<noteq> note_variable"
    by code_simp
  with blank_column_is_categorical [where fake = demo_generators and g = 0] show ?thesis
    by simp
qed

text \<open>
  C7. For a categorical column without blank text, the examples before the markers are
  substituted are the first \<open>EXAMPLE_COUNT\<close> distinct non-empty values in order of first
  occurrence (lemma \<open>categorical_examples_blank_free\<close>). With a blank cell the code
  departs from that: the blank string is Empty for the counting loop but is selected as
  a distinct value, so the column of four city names and one single-space cell lists
  the blank among its examples.
\<close>

theorem blank_among_selected_values:
  "analyze_column fake
     (Series [PyStr ''Lund'', PyStr ''Visby'', PyStr ''Kalmar'', PyStr ''Falun'', PyStr '' ''])
     ''Stad'' g =
     Inr ((Shares [(''Text'', 4 / 5), (''Tom'', 1 / 5)],
           [PyStr ''Visby'', PyStr ''Kalmar'', PyStr ''Falun'', PyStr '' '', empty_marker],
           note_categorical 5), g) \<and>
   take EXAMPLE_COUNT (unique_values
     (Series [PyStr ''Lund'', PyStr ''Visby'', PyStr ''Kalmar'', PyStr ''Falun'', PyStr '' ''])) =
     [PyStr ''Lund'', PyStr ''Visby'', PyStr ''Kalmar'', PyStr ''Falun'', PyStr '' ''] \<and>
   take EXAMPLE_COUNT (distinct_non_empty
     (Series [PyStr ''Lund'', PyStr ''Visby'', PyStr ''Kalmar'', PyStr ''Falun'', PyStr '' ''])) =
     [PyStr ''Lund'', PyStr ''Visby'', PyStr ''Kalmar'', PyStr ''Falun'']"
proof -
  let ?s = "Series [PyStr ''Lund'', PyStr ''Visby'', PyStr ''Kalmar'', PyStr ''Falun'', PyStr '' '']"
  have e: "vals ?s \<noteq> []" "is_categorical ?s"
    "type_summary ?s = Shares [(''Text'', 4 / 5), (''Tom'', 1 / 5)]" "num_empty_to_add ?s = 1"
    "take EXAMPLE_COUNT (unique_values ?s) =
       [PyStr ''Lund'', PyStr ''Visby'', PyStr ''Kalmar'', PyStr ''Falun'', PyStr '' '']"
    "length (unique_values ?s) = 5"
    "take EXAMPLE_COUNT (distinct_non_empty ?s) =
       [PyStr ''Lund'', PyStr ''Visby'', PyStr ''Kalmar'', PyStr ''Falun'']"
    by code_simp+
  then show ?thesis
    by (simp add: analyze_column_categorical EXAMPLE_COUNT_def eval_nat_numeral)
qed

theorem blank_among_selected_values_witness:
  "analyze_column demo_generators
     (Series [PyStr ''Lund'', PyStr ''Visby'', PyStr ''Kalmar'', PyStr ''Falun'', PyStr '' ''])
     ''Stad'' 0 =
     Inr ((Shares [(''Text'', 4 / 5), (''Tom'', 1 / 5)],
           [PyStr ''Visby'', PyStr ''Kalmar'', PyStr ''Falun'', PyStr '' '', empty_marker],
           note_categorical 5), 0) \<and>
   is_empty_value (PyStr '' '')"
proof -
  have "is_empty_value (PyStr '' '')"
    by code_simp
  with blank_among_selected_values [where fake = demo_generators and g = 0] show ?thesis
    by simp
qed

text \<open>
  C10. Let a sample hold a value that is not missing but blank as text. The counting
  loop counts it under \<^verbatim>\<open>Tom\<close>: it is one of the Empty values that make up the share of
  \<^verbatim>\<open>Tom\<close> in the summary and the number of marker slots. It is nevertheless one of the
  distinct values \<open>unique_values\<close>, on whose number the categorical test rests and from
  which the examples of a categorical column are taken. So a blank value can stand in
  the example list of a categorical column as it is: in the column \<^verbatim>\<open>Ja\<close>, blank,
  \<^verbatim>\<open>Nej\<close>, \<^verbatim>\<open>Ja\<close>, \<^verbatim>\<open>Ja\<close> it is the first example returned.
\<close>

theorem blank_value_retained:
  assumes "v \<in> set (vals s)" and "is_blank v"
  shows "kind_of v = ''Tom'' \<and>
     is_empty_value v \<and>
     counter_get (type_counts s) ''Tom'' 0 = length (filter is_empty_value (vals s)) \<and>
     0 < counter_get (type_counts s) ''Tom'' 0 \<and>
     (\<exists>ps. type_summary s = Shares ps \<and> (''Tom'', empty_fraction s) \<in> set ps) \<and>
     num_empty_to_add s = marker_slots s \<and>
     v \<in> set (unique_values s) \<and>
     (is_categorical s \<longleftrightarrow>
        length (unique_values s) \<le> CATEGORICAL_THRESHOLD \<and> dtype s = Object) \<and>
     (is_categorical s \<longrightarrow>
        analyze_column fake s col_name g =
          Inr ((type_summary s,
                drop (marker_slots s) (take EXAMPLE_COUNT (unique_values s)) @
                  replicate (marker_slots s) empty_marker,
                note_categorical (length (unique_values s))), g)) \<and>
     analyze_column fake
       (Series [PyStr ''Ja'', PyStr '' '', PyStr ''Nej'', PyStr ''Ja'', PyStr ''Ja'']) ''Svar'' g =
       Inr ((Shares [(''Text'', 4 / 5), (''Tom'', 1 / 5)],
             [PyStr '' '', PyStr ''Nej'', empty_marker], note_categorical 3), g)"
proof -
  from assms(2) have e: "is_empty_value v" and n: "\<not> isna v"
    by (simp_all add: is_blank_def is_empty_value_def)
  from e have k: "kind_of v = ''Tom''"
    by (simp add: kind_of_Tom)
  have c: "counter_get (type_counts s) ''Tom'' 0 = length (filter is_empty_value (vals s))"
    by (rule tom_count)
  from assms(1) e have "v \<in> set (filter is_empty_value (vals s))"
    by simp
  then have "0 < length (filter is_empty_value (vals s))"
    by (cases "filter is_empty_value (vals s)") auto
  with c have p: "0 < counter_get (type_counts s) ''Tom'' 0"
    by simp
  note sh = tom_share [OF assms(1) e]
  from assms(1) n have u: "v \<in> set (unique_values s)"
    by (simp add: unique_values_eq)
  then have "0 < length (unique_values s)"
    by (cases "unique_values s") auto
  then have d: "is_categorical s \<longleftrightarrow>
        length (unique_values s) \<le> CATEGORICAL_THRESHOLD \<and> dtype s = Object"
    by (simp add: is_categorical_iff)
  from assms(1) have ne: "vals s \<noteq> []"
    by auto
  have a: "is_categorical s \<longrightarrow>
        analyze_column fake s col_name g =
          Inr ((type_summary s,
                drop (marker_slots s) (take EXAMPLE_COUNT (unique_values s)) @
                  replicate (marker_slots s) empty_marker,
                note_categorical (length (unique_values s))), g)"
    using ne by (simp add: analyze_column_categorical marker_slots_eq)
  let ?s = "Series [PyStr ''Ja'', PyStr '' '', PyStr ''Nej'', PyStr ''Ja'', PyStr ''Ja'']"
  have "vals ?s \<noteq> []" "is_categorical ?s"
    "type_summary ?s = Shares [(''Text'', 4 / 5), (''Tom'', 1 / 5)]" "num_empty_to_add ?s = 1"
    "take EXAMPLE_COUNT (unique_values ?s) = [PyStr ''Ja'', PyStr '' '', PyStr ''Nej'']"
    "note_categorical (length (unique_values ?s)) = note_categorical 3"
    by code_simp+
  then have i: "analyze_column fake ?s ''Svar'' g =
       Inr ((Shares [(''Text'', 4 / 5), (''Tom'', 1 / 5)],
             [PyStr '' '', PyStr ''Nej'', empty_marker], note_categorical 3), g)"
    by (simp add: analyze_column_categorical)
  from k e c p sh marker_slots_eq [of s] u d a i show ?thesis
    by (intro conjI)
qed

theorem blank_value_retained_witness:
  "PyStr '' '' \<in> set (vals (Series [PyStr ''Ja'', PyStr '' '', PyStr ''Nej''])) \<and>
   is_blank (PyStr '' '') \<and>
   kind_of (PyStr '' '') = ''Tom'' \<and>
   PyStr '' '' \<in> set (unique_values (Series [PyStr ''Ja'', PyStr '' '', PyStr ''Nej''])) \<and>
   analyze_column demo_generators
     (Series [PyStr ''Ja'', PyStr '' '', PyStr ''Nej'', PyStr ''Ja'', PyStr ''Ja'']) ''Svar'' 0 =
     Inr ((Shares [(''Text'', 4 / 5), (''Tom'', 1 / 5)],
           [PyStr '' '', PyStr ''Nej'', empty_marker], note_categorical 3), 0)"
proof -
  have h: "PyStr '' '' \<in> set (vals (Series [PyStr ''Ja'', PyStr '' '', PyStr ''Nej'']))"
    "is_blank (PyStr '' '')"
    by code_simp+
  from blank_value_retained [OF h, where fake = demo_generators and g = 0] h show ?thesis
    by simp
qed

end
